theory Spec2Isabelle
  imports Main "HOL-Library.Word"
begin

section \<open>JavaScript strings\<close>

text \<open>
  A JavaScript string is a sequence of UTF-16 code units. The literals of \<^verbatim>\<open>script.js\<close>
  are written with \<open>js\<close> for their ASCII parts and with explicit code units for the
  accented letters (\<open>0xF3\<close> is o-acute, \<open>0xFA\<close> u-acute, \<open>0xED\<close> i-acute).
\<close>

type_synonym jschar = "16 word"
type_synonym jstring = "jschar list"

definition js :: "string \<Rightarrow> jstring" where
  "js s = map of_char s"

definition nl :: jstring where
  "nl = [0x0A]"

definition sp :: "nat \<Rightarrow> jstring" where
  "sp n = replicate n 0x20"

text \<open>Number-to-string conversion of a non-negative integer (decimal, no leading zero).\<close>

fun decimal :: "nat \<Rightarrow> jstring" where
  "decimal n =
     (if n < 10 then [of_nat (48 + n)]
      else decimal (n div 10) @ [of_nat (48 + n mod 10)])"

declare decimal.simps [simp del]

text \<open>
  \<^verbatim>\<open>String.prototype.trim\<close> strips the code units that ECMAScript calls WhiteSpace or
  LineTerminator from both ends.
\<close>

definition isWhiteSpace :: "jschar \<Rightarrow> bool" where
  "isWhiteSpace c \<longleftrightarrow>
     c = 0x09 \<or> c = 0x0A \<or> c = 0x0B \<or> c = 0x0C \<or> c = 0x0D \<or> c = 0x20 \<or> c = 0xA0 \<or>
     c = 0x1680 \<or> (0x2000 \<le> c \<and> c \<le> 0x200A) \<or> c = 0x2028 \<or> c = 0x2029 \<or>
     c = 0x202F \<or> c = 0x205F \<or> c = 0x3000 \<or> c = 0xFEFF"

definition trim :: "jstring \<Rightarrow> jstring" where
  "trim s = rev (dropWhile isWhiteSpace (rev (dropWhile isWhiteSpace s)))"

section \<open>Errors and JSON values\<close>

datatype error_name = Error | TypeError | SyntaxError | URIError

datatype js_error = Thrown (name: error_name) (message: jstring)

text \<open>
  Sequencing of computations that may throw: \<open>Inl\<close> is the thrown error.
\<close>

definition bindE :: "js_error + 'a \<Rightarrow> ('a \<Rightarrow> js_error + 'b) \<Rightarrow> js_error + 'b" where
  "bindE r f = (case r of Inl e \<Rightarrow> Inl e | Inr v \<Rightarrow> f v)"

text \<open>
  The values \<^verbatim>\<open>response.json()\<close> can produce, and \<^verbatim>\<open>undefined\<close>. Numbers are restricted
  to integers (of magnitude below \<open>10^21\<close>, which JavaScript prints in decimal); an object
  is the association list of its own properties.
\<close>

datatype jsval =
    JUndefined
  | JNull
  | JBool bool
  | JNum int
  | JStr jstring
  | JArr "jsval list"
  | JObj "(jstring \<times> jsval) list"

text \<open>The test \<^verbatim>\<open>if (v)\<close>; \<^verbatim>\<open>!v\<close> is its negation.\<close>

fun truthy :: "jsval \<Rightarrow> bool" where
  "truthy JUndefined = False"
| "truthy JNull = False"
| "truthy (JBool b) = b"
| "truthy (JNum n) = (n \<noteq> 0)"
| "truthy (JStr s) = (s \<noteq> [])"
| "truthy (JArr xs) = True"
| "truthy (JObj kvs) = True"

text \<open>
  The text of an error raised by the engine itself is the engine's; the texts below are
  the ones V8 prints.
\<close>

definition cannotRead :: "jstring \<Rightarrow> jstring \<Rightarrow> js_error" where
  "cannotRead what k =
     Thrown TypeError
       (js ''Cannot read properties of '' @ what @ js '' (reading '' @ [0x27] @ k @ [0x27] @ js '')'')"

definition notAFunction :: "jstring \<Rightarrow> js_error" where
  "notAFunction what = Thrown TypeError (what @ js '' is not a function'')"

definition cannotSetInnerHTML :: js_error where
  "cannotSetInnerHTML =
     Thrown TypeError (js ''Cannot set properties of null (setting 'innerHTML')'')"

definition cannotConvert :: js_error where
  "cannotConvert = Thrown TypeError (js ''Cannot convert object to primitive value'')"

definition uriMalformed :: js_error where
  "uriMalformed = Thrown URIError (js ''URI malformed'')"

text \<open>
  Reading a data property \<^verbatim>\<open>v.k\<close> or \<^verbatim>\<open>v[k]\<close>, for the names the script reads
  (\<^verbatim>\<open>drinks\<close>, \<^verbatim>\<open>idDrink\<close>, \<^verbatim>\<open>strDrink\<close>, \<^verbatim>\<open>strIngredient1\<close>, ...): none of them is an array
  index or a property of a built-in prototype, so only an object can have one, and a read
  from \<^verbatim>\<open>null\<close> or \<^verbatim>\<open>undefined\<close> throws.
\<close>

fun getField :: "jsval \<Rightarrow> jstring \<Rightarrow> js_error + jsval" where
  "getField JUndefined k = Inl (cannotRead (js ''undefined'') k)"
| "getField JNull k = Inl (cannotRead (js ''null'') k)"
| "getField (JObj kvs) k = Inr (case map_of kvs k of None \<Rightarrow> JUndefined | Some v \<Rightarrow> v)"
| "getField v k = Inr JUndefined"

text \<open>The read \<^verbatim>\<open>v[0]\<close>.\<close>

fun index0 :: "jsval \<Rightarrow> js_error + jsval" where
  "index0 JUndefined = Inl (cannotRead (js ''undefined'') (js ''0''))"
| "index0 JNull = Inl (cannotRead (js ''null'') (js ''0''))"
| "index0 (JArr xs) = Inr (case xs of [] \<Rightarrow> JUndefined | x # _ \<Rightarrow> x)"
| "index0 (JStr s) = Inr (case s of [] \<Rightarrow> JUndefined | c # _ \<Rightarrow> JStr [c])"
| "index0 (JObj kvs) = Inr (case map_of kvs (js ''0'') of None \<Rightarrow> JUndefined | Some v \<Rightarrow> v)"
| "index0 v = Inr JUndefined"

text \<open>The read \<^verbatim>\<open>v.length\<close>.\<close>

fun jsLength :: "jsval \<Rightarrow> js_error + jsval" where
  "jsLength JUndefined = Inl (cannotRead (js ''undefined'') (js ''length''))"
| "jsLength JNull = Inl (cannotRead (js ''null'') (js ''length''))"
| "jsLength (JArr xs) = Inr (JNum (int (length xs)))"
| "jsLength (JStr s) = Inr (JNum (int (length s)))"
| "jsLength (JObj kvs) =
     Inr (case map_of kvs (js ''length'') of None \<Rightarrow> JUndefined | Some v \<Rightarrow> v)"
| "jsLength v = Inr JUndefined"

text \<open>
  The call \<^verbatim>\<open>v.trim()\<close> on a truthy value: only a string has a callable \<^verbatim>\<open>trim\<close>.
  The first argument is the source text of \<^verbatim>\<open>v\<close>, for the error's message.
\<close>

fun callTrim :: "jstring \<Rightarrow> jsval \<Rightarrow> js_error + jstring" where
  "callTrim what (JStr s) = Inr (trim s)"
| "callTrim what JUndefined = Inl (cannotRead (js ''undefined'') (js ''trim''))"
| "callTrim what JNull = Inl (cannotRead (js ''null'') (js ''trim''))"
| "callTrim what v = Inl (notAFunction (what @ js ''.trim''))"

text \<open>
  The call \<^verbatim>\<open>v.forEach(f)\<close>, where \<^verbatim>\<open>f\<close> updates one local variable (the markup built so
  far): only an array has a callable \<^verbatim>\<open>forEach\<close>.
\<close>

fun forEachList :: "(jsval \<Rightarrow> 'a \<Rightarrow> js_error + 'a) \<Rightarrow> jsval list \<Rightarrow> 'a \<Rightarrow> js_error + 'a" where
  "forEachList f [] acc = Inr acc"
| "forEachList f (x # xs) acc = bindE (f x acc) (forEachList f xs)"

fun forEach :: "jstring \<Rightarrow> jsval \<Rightarrow> (jsval \<Rightarrow> 'a \<Rightarrow> js_error + 'a) \<Rightarrow> 'a \<Rightarrow> js_error + 'a" where
  "forEach what (JArr xs) f acc = forEachList f xs acc"
| "forEach what JUndefined f acc = Inl (cannotRead (js ''undefined'') (js ''forEach''))"
| "forEach what JNull f acc = Inl (cannotRead (js ''null'') (js ''forEach''))"
| "forEach what v f acc = Inl (notAFunction (what @ js ''.forEach''))"

text \<open>
  String conversion, as a template literal \<^verbatim>\<open>${v}\<close> performs it. An array is joined with
  commas, \<^verbatim>\<open>null\<close> and \<^verbatim>\<open>undefined\<close> elements giving the empty string; an object prints as
  \<^verbatim>\<open>[object Object]\<close> unless it has an own property \<^verbatim>\<open>toString\<close>, which JSON cannot make
  callable, and then the conversion throws.
\<close>

fun toStr :: "jsval \<Rightarrow> js_error + jstring"
  and joinStr :: "jsval list \<Rightarrow> js_error + jstring" where
  "toStr JUndefined = Inr (js ''undefined'')"
| "toStr JNull = Inr (js ''null'')"
| "toStr (JBool b) = Inr (if b then js ''true'' else js ''false'')"
| "toStr (JNum n) = Inr (if n < 0 then js ''-'' @ decimal (nat (- n)) else decimal (nat n))"
| "toStr (JStr s) = Inr s"
| "toStr (JArr xs) = joinStr xs"
| "toStr (JObj kvs) =
     (if map_of kvs (js ''toString'') \<noteq> None then Inl cannotConvert
      else Inr (js ''[object Object]''))"
| "joinStr [] = Inr []"
| "joinStr (x # xs) =
     bindE (if x = JNull \<or> x = JUndefined then Inr [] else toStr x) (\<lambda>a.
       if xs = [] then Inr a else bindE (joinStr xs) (\<lambda>b. Inr (a @ js '','' @ b)))"

section \<open>The page and the network\<close>

text \<open>
  The state the script reads and writes. \<open>cocktailDisplayDiv\<close> and
  \<open>categoriesDisplayDiv\<close> are the two display regions: \<open>None\<close> when
  \<^verbatim>\<open>getElementById\<close> finds no such element, otherwise the markup last assigned to the
  element's \<^verbatim>\<open>innerHTML\<close> (the two elements are taken to be distinct and not nested).
  \<open>searchInput\<close> is the text in the search field, \<open>None\<close> when the field is missing.
  \<open>console\<close> is what was written to the console and \<open>requests\<close> the URLs handed to
  \<^verbatim>\<open>fetch\<close>, both in order. Event listeners are not part of the state: each handler is a
  function of this theory.
\<close>

datatype console_entry = ConsoleLog jstring jstring | ConsoleError jstring js_error

record page =
  cocktailDisplayDiv :: "jstring option"
  categoriesDisplayDiv :: "jstring option"
  searchInput :: "jstring option"
  console :: "console_entry list"
  requests :: "jstring list"

text \<open>
  What the remote side answers: \<^verbatim>\<open>fetch\<close> rejects with an error, or resolves with a
  response, whose \<^verbatim>\<open>json()\<close> rejects (the body is not JSON) or resolves with the parsed
  body.
\<close>

record response =
  status :: nat
  json :: "js_error + jsval"

definition ok :: "response \<Rightarrow> bool" where
  "ok r \<longleftrightarrow> 200 \<le> status r \<and> status r \<le> 299"

type_synonym network = "jstring \<Rightarrow> js_error + response"

text \<open>
  A statement sequence is a function from the page to a result and the page after it.
  An \<^verbatim>\<open>await\<close> is modelled as an ordinary call: each flow runs to completion without
  another flow in between.
\<close>

type_synonym 'a action = "page \<Rightarrow> (js_error + 'a) \<times> page"

definition returnA :: "'a \<Rightarrow> 'a action" where
  "returnA v s = (Inr v, s)"

definition throwA :: "js_error \<Rightarrow> 'a action" where
  "throwA e s = (Inl e, s)"

definition liftE :: "js_error + 'a \<Rightarrow> 'a action" where
  "liftE r s = (r, s)"

definition bindA :: "'a action \<Rightarrow> ('a \<Rightarrow> 'b action) \<Rightarrow> 'b action" where
  "bindA m f s = (case m s of (Inl e, s') \<Rightarrow> (Inl e, s') | (Inr v, s') \<Rightarrow> f v s')"

definition tryCatch :: "'a action \<Rightarrow> (js_error \<Rightarrow> 'a action) \<Rightarrow> 'a action" where
  "tryCatch m h s = (case m s of (Inl e, s') \<Rightarrow> h e s' | (Inr v, s') \<Rightarrow> (Inr v, s'))"

definition consoleLog :: "jstring \<Rightarrow> jstring \<Rightarrow> unit action" where
  "consoleLog label v s = (Inr (), s\<lparr>console := console s @ [ConsoleLog label v]\<rparr>)"

definition consoleError :: "jstring \<Rightarrow> js_error \<Rightarrow> unit action" where
  "consoleError label e s = (Inr (), s\<lparr>console := console s @ [ConsoleError label e]\<rparr>)"

definition fetch :: "network \<Rightarrow> jstring \<Rightarrow> response action" where
  "fetch net url s = (net url, s\<lparr>requests := requests s @ [url]\<rparr>)"

text \<open>
  The assignment \<^verbatim>\<open>cocktailDisplayDiv.innerHTML = h\<close> where the script does not test the
  element first: it throws when the element is missing.
\<close>

definition setCocktailInnerHTML :: "jstring \<Rightarrow> unit action" where
  "setCocktailInnerHTML h s =
     (case cocktailDisplayDiv s of
        None \<Rightarrow> (Inl cannotSetInnerHTML, s)
      | Some _ \<Rightarrow> (Inr (), s\<lparr>cocktailDisplayDiv := Some h\<rparr>))"

section \<open>The script\<close>

definition cocktailApiBaseUrl :: jstring where
  "cocktailApiBaseUrl = js ''https://www.thecocktaildb.com/api/json/v1/1/''"

subsection \<open>fetchCocktailData\<close>

definition httpError :: "nat \<Rightarrow> js_error" where
  "httpError st = Thrown Error (js ''HTTP error! Status: '' @ decimal st)"

definition fetchCocktailData :: "network \<Rightarrow> jstring \<Rightarrow> jsval action" where
  "fetchCocktailData net url =
     bindA (consoleLog (js ''Fetching URL:'') url) (\<lambda>_.
     tryCatch
       (bindA (fetch net url) (\<lambda>response.
          if \<not> ok response then throwA (httpError (status response))
          else
            bindA (liftE (json response)) (\<lambda>data.
            bindA (liftE (getField data (js ''drinks''))) (\<lambda>drinks.
              if \<not> truthy drinks then returnA JNull
              else liftE (index0 drinks)))))
       (\<lambda>error.
          bindA (consoleError (js ''Cocktail Fetch error:'') error) (\<lambda>_. throwA error)))"

subsection \<open>displayError, displayLoading\<close>

definition errorHtml :: "jstring \<Rightarrow> jstring" where
  \<open>errorHtml msg = js ''<p class="error-text">'' @ msg @ js ''</p>''\<close>

definition displayError :: "jstring \<Rightarrow> unit action" where
  "displayError msg s =
     (if cocktailDisplayDiv s \<noteq> None
      then (Inr (), s\<lparr>cocktailDisplayDiv := Some (errorHtml msg)\<rparr>)
      else (Inr (), s))"

definition loadingHtml :: "jstring \<Rightarrow> jstring" where
  \<open>loadingHtml msg = js ''<p class="loading-text">'' @ msg @ js ''</p>''\<close>

definition displayLoading :: "jstring \<Rightarrow> unit action" where
  "displayLoading msg s =
     (if cocktailDisplayDiv s \<noteq> None
      then (Inr (), s\<lparr>cocktailDisplayDiv := Some (loadingHtml msg)\<rparr>)
      else (Inr (), s))"

subsection \<open>displayCocktail\<close>

definition notFoundHtml :: jstring where
  \<open>notFoundHtml =
     js ''<p class="error-text">No se encontr'' @ [0xF3] @ js '' ning'' @ [0xFA] @ js ''n c'' @
     [0xF3] @ js ''ctel con ese nombre.</p>''\<close>

text \<open>
  The loop \<^verbatim>\<open>for (let i = 1; i <= 15; i++)\<close>, with \<open>html\<close> the value of
  \<^verbatim>\<open>ingredientsHtml\<close> so far; a \<^verbatim>\<open>break\<close> leaves it with that value.
\<close>

function ingredientsLoop :: "jsval \<Rightarrow> nat \<Rightarrow> jstring \<Rightarrow> js_error + jstring" where
  "ingredientsLoop drink i html =
     (if i \<le> 15 then
        bindE (getField drink (js ''strIngredient'' @ decimal i)) (\<lambda>ingredient.
        bindE (getField drink (js ''strMeasure'' @ decimal i)) (\<lambda>measure.
          if \<not> truthy ingredient then Inr html
          else
            bindE (if truthy measure
                   then bindE (callTrim (js ''measure'') measure) (\<lambda>m. Inr (m @ js '' ''))
                   else Inr []) (\<lambda>m.
            bindE (callTrim (js ''ingredient'') ingredient) (\<lambda>g.
              ingredientsLoop drink (i + 1) (html @ js ''<li>'' @ m @ g @ js ''</li>'')))))
      else Inr html)"
  by pat_completeness auto
termination
  by (relation "measure (\<lambda>(drink, i, html). 16 - i)") auto

declare ingredientsLoop.simps [simp del]

definition ingredientsHtml :: "jsval \<Rightarrow> js_error + jstring" where
  "ingredientsHtml drink =
     bindE (ingredientsLoop drink 1 (js ''<ul>'')) (\<lambda>html. Inr (html @ js ''</ul>''))"

text \<open>An optional line of the detail view: \<^verbatim>\<open>${v ? `<p><strong>label</strong> ${v}</p>` : ''}\<close>.\<close>

definition optionalLine :: "jstring \<Rightarrow> jsval \<Rightarrow> js_error + jstring" where
  "optionalLine label v =
     (if truthy v
      then bindE (toStr v) (\<lambda>t.
             Inr (js ''<p><strong>'' @ label @ js ''</strong> '' @ t @ js ''</p>''))
      else Inr [])"

definition cocktailHtml :: "jsval \<Rightarrow> jstring \<Rightarrow> js_error + jstring" where
  \<open>cocktailHtml drink ingredients =
     bindE (getField drink (js ''strDrink'')) (\<lambda>strDrink.
     bindE (toStr strDrink) (\<lambda>name1.
     bindE (getField drink (js ''strDrinkThumb'')) (\<lambda>strDrinkThumb.
     bindE (toStr strDrinkThumb) (\<lambda>thumb.
     bindE (toStr strDrink) (\<lambda>name2.
     bindE (getField drink (js ''strCategory'')) (\<lambda>strCategory.
     bindE (optionalLine (js ''Categor'' @ [0xED] @ js ''a:'') strCategory) (\<lambda>category.
     bindE (getField drink (js ''strAlcoholic'')) (\<lambda>strAlcoholic.
     bindE (optionalLine (js ''Tipo:'') strAlcoholic) (\<lambda>alcoholic.
     bindE (getField drink (js ''strGlass'')) (\<lambda>strGlass.
     bindE (optionalLine (js ''Vaso recomendado:'') strGlass) (\<lambda>glass.
     bindE (getField drink (js ''strInstructions'')) (\<lambda>strInstructions.
     bindE (if truthy strInstructions then toStr strInstructions
            else Inr (js ''Instrucciones no disponibles.'')) (\<lambda>instructions.
       Inr (nl @ sp 12 @ js ''<h3>'' @ name1 @ js ''</h3>'' @
            nl @ sp 12 @ js ''<img src="'' @ thumb @ js ''" alt="[Imagen de '' @ name2 @
              js '']" onerror="this.style.display='none'">'' @
            nl @ sp 12 @ category @
            nl @ sp 12 @ alcoholic @
            nl @ sp 12 @ glass @
            nl @
            nl @ sp 12 @ js ''<h4>Ingredientes:</h4>'' @
            nl @ sp 12 @ ingredients @
            nl @
            nl @ sp 12 @ js ''<h4>Instrucciones:</h4>'' @
            nl @ sp 12 @ js ''<p>'' @ instructions @ js ''</p>'' @
            nl @ sp 8))))))))))))))\<close>

definition displayCocktail :: "jsval \<Rightarrow> unit action" where
  "displayCocktail drink s =
     (if cocktailDisplayDiv s = None then (Inr (), s)
      else if \<not> truthy drink then (Inr (), s\<lparr>cocktailDisplayDiv := Some notFoundHtml\<rparr>)
      else
        (case bindE (ingredientsHtml drink) (cocktailHtml drink) of
           Inl e \<Rightarrow> (Inl e, s)
         | Inr h \<Rightarrow> (Inr (), s\<lparr>cocktailDisplayDiv := Some h\<rparr>)))"

subsection \<open>encodeURIComponent\<close>

text \<open>
  The built-in, as ECMAScript defines it: a code unit of the unescaped set is kept; any
  other code point (a surrogate pair is one code point) is written as its UTF-8 octets,
  each as \<^verbatim>\<open>%\<close> and two upper-case hexadecimal digits; an unpaired surrogate throws a
  \<^verbatim>\<open>URIError\<close>.
\<close>

definition uriUnescaped :: "jschar \<Rightarrow> bool" where
  "uriUnescaped c \<longleftrightarrow>
     (0x41 \<le> c \<and> c \<le> 0x5A) \<or> (0x61 \<le> c \<and> c \<le> 0x7A) \<or> (0x30 \<le> c \<and> c \<le> 0x39) \<or>
     c \<in> set (js ''-_.!~*'()'')"

definition isLeadSurrogate :: "jschar \<Rightarrow> bool" where
  "isLeadSurrogate c \<longleftrightarrow> 0xD800 \<le> c \<and> c \<le> 0xDBFF"

definition isTrailSurrogate :: "jschar \<Rightarrow> bool" where
  "isTrailSurrogate c \<longleftrightarrow> 0xDC00 \<le> c \<and> c \<le> 0xDFFF"

definition surrogatePair :: "jschar \<Rightarrow> jschar \<Rightarrow> nat" where
  "surrogatePair c d = (unat c - 0xD800) * 0x400 + (unat d - 0xDC00) + 0x10000"

definition utf8 :: "nat \<Rightarrow> nat list" where
  "utf8 cp =
     (if cp < 0x80 then [cp]
      else if cp < 0x800 then [0xC0 + cp div 64, 0x80 + cp mod 64]
      else if cp < 0x10000 then
        [0xE0 + cp div 4096, 0x80 + cp div 64 mod 64, 0x80 + cp mod 64]
      else
        [0xF0 + cp div 262144, 0x80 + cp div 4096 mod 64, 0x80 + cp div 64 mod 64,
         0x80 + cp mod 64])"

definition hexDigit :: "nat \<Rightarrow> jschar" where
  "hexDigit d = (if d < 10 then of_nat (48 + d) else of_nat (55 + d))"

definition percentOctet :: "nat \<Rightarrow> jstring" where
  "percentOctet b = [0x25, hexDigit (b div 16), hexDigit (b mod 16)]"

definition percentEncode :: "nat \<Rightarrow> jstring" where
  "percentEncode cp = concat (map percentOctet (utf8 cp))"

fun encodeURIComponent :: "jstring \<Rightarrow> js_error + jstring" where
  "encodeURIComponent [] = Inr []"
| "encodeURIComponent (c # cs) =
     (if uriUnescaped c then bindE (encodeURIComponent cs) (\<lambda>r. Inr (c # r))
      else if isTrailSurrogate c then Inl uriMalformed
      else if isLeadSurrogate c then
        (case cs of
           [] \<Rightarrow> Inl uriMalformed
         | d # ds \<Rightarrow>
             if isTrailSurrogate d
             then bindE (encodeURIComponent ds) (\<lambda>r. Inr (percentEncode (surrogatePair c d) @ r))
             else Inl uriMalformed)
      else bindE (encodeURIComponent cs) (\<lambda>r. Inr (percentEncode (unat c) @ r)))"

subsection \<open>The single-cocktail flows\<close>


definition searchAndDisplayCocktail :: "network \<Rightarrow> unit action" where
  \<open>searchAndDisplayCocktail net s =
     (case searchInput s of
        None \<Rightarrow> (Inl (cannotRead (js ''null'') (js ''value'')), s)
      | Some v \<Rightarrow>
          let searchTerm = trim v in
          if searchTerm = [] then
            displayError
              (js ''Por favor, introduce un nombre de c'' @ [0xF3] @ js ''ctel para buscar.'') s
          else
            bindA (displayLoading (js ''Buscando "'' @ searchTerm @ js ''"...'')) (\<lambda>_.
            tryCatch
              (bindA (liftE (encodeURIComponent searchTerm)) (\<lambda>enc.
               bindA (fetchCocktailData net (cocktailApiBaseUrl @ js ''search.php?s='' @ enc))
                 (\<lambda>drink. displayCocktail drink)))
              (\<lambda>error.
                 displayError
                   (js ''Error al buscar c'' @ [0xF3] @ js ''ctel: '' @ message error))) s)\<close>

definition fetchAndDisplayCocktailDetails :: "network \<Rightarrow> jstring \<Rightarrow> unit action" where
  "fetchAndDisplayCocktailDetails net drinkId =
     bindA (displayLoading (js ''Cargando detalles del c'' @ [0xF3] @ js ''ctel...'')) (\<lambda>_.
     tryCatch
       (bindA (liftE (encodeURIComponent drinkId)) (\<lambda>enc.
        bindA (fetchCocktailData net (cocktailApiBaseUrl @ js ''lookup.php?i='' @ enc))
          (\<lambda>drink. displayCocktail drink)))
       (\<lambda>error.
          displayError
            (js ''Error al cargar detalles del c'' @ [0xF3] @ js ''ctel: '' @ message error)))"

subsection \<open>The category functions\<close>

definition fetchCocktailCategories :: "network \<Rightarrow> jsval action" where
  "fetchCocktailCategories net =
     tryCatch
       (bindA (fetch net (cocktailApiBaseUrl @ js ''list.php?c=list'')) (\<lambda>response.
          if \<not> ok response then throwA (httpError (status response))
          else
            bindA (liftE (json response)) (\<lambda>data.
            bindA (liftE (getField data (js ''drinks''))) (\<lambda>drinks.
              if \<not> truthy drinks then returnA JNull
              else returnA drinks))))
       (\<lambda>error.
          bindA (consoleError (js ''Category Fetch error:'') error) (\<lambda>_.
          bindA (displayError
                   (js ''Error al cargar las categor'' @ [0xED] @ js ''as: '' @ message error))
            (\<lambda>_. returnA JNull)))"

definition noCategoriesHtml :: jstring where
  \<open>noCategoriesHtml =
     js ''<p class="error-text">No se encontraron categor'' @ [0xED] @ js ''as.</p>''\<close>

text \<open>The body of the \<^verbatim>\<open>forEach\<close> callback: one card appended to \<^verbatim>\<open>categoriesHtml\<close>.\<close>

definition categoryCard :: "jsval \<Rightarrow> jstring \<Rightarrow> js_error + jstring" where
  \<open>categoryCard category categoriesHtml =
     bindE (getField category (js ''strCategory'')) (\<lambda>categoryName.
     bindE (toStr categoryName) (\<lambda>name1.
     bindE (toStr categoryName) (\<lambda>name2.
       Inr (categoriesHtml @
            nl @ sp 16 @
            js ''<div class="category-card m-2 p-4 bg-white rounded-lg shadow-md cursor-pointer hover:bg-teal-100"'' @
            nl @ sp 21 @ js ''data-category="'' @ name1 @ js ''"'' @
            nl @ sp 21 @ js ''style="width: 150px; text-align: center;">'' @
            nl @ sp 20 @ name2 @
            nl @ sp 16 @ js ''</div>'' @
            nl @ sp 12))))\<close>

text \<open>
  After the markup is assigned the script attaches a click listener to every card; the
  listener is \<open>categoryCardClick\<close> below, and attaching it changes nothing of the page.
\<close>

definition displayCategories :: "jsval \<Rightarrow> unit action" where
  "displayCategories categories s =
     (case categoriesDisplayDiv s of
        None \<Rightarrow> (Inr (), s)
      | Some _ \<Rightarrow>
          (case (if \<not> truthy categories then Inr True
                 else bindE (jsLength categories) (\<lambda>n. Inr (n = JNum 0))) of
             Inl e \<Rightarrow> (Inl e, s)
           | Inr True \<Rightarrow> (Inr (), s\<lparr>categoriesDisplayDiv := Some noCategoriesHtml\<rparr>)
           | Inr False \<Rightarrow>
               (case forEach (js ''categories'') categories categoryCard [] of
                  Inl e \<Rightarrow> (Inl e, s)
                | Inr categoriesHtml \<Rightarrow>
                    (Inr (), s\<lparr>categoriesDisplayDiv := Some categoriesHtml\<rparr>))))"

text \<open>The body of the \<^verbatim>\<open>forEach\<close> callback of the grid: one item appended to \<^verbatim>\<open>cocktailsHtml\<close>.\<close>

definition cocktailItem :: "jsval \<Rightarrow> jstring \<Rightarrow> js_error + jstring" where
  \<open>cocktailItem drink cocktailsHtml =
     bindE (getField drink (js ''idDrink'')) (\<lambda>idDrink.
     bindE (toStr idDrink) (\<lambda>ident.
     bindE (getField drink (js ''strDrinkThumb'')) (\<lambda>strDrinkThumb.
     bindE (toStr strDrinkThumb) (\<lambda>thumb.
     bindE (getField drink (js ''strDrink'')) (\<lambda>strDrink.
     bindE (toStr strDrink) (\<lambda>name1.
     bindE (toStr strDrink) (\<lambda>name2.
       Inr (cocktailsHtml @
            nl @ sp 20 @
            js ''<div class="cocktail-item m-2 p-4 bg-white rounded-lg shadow-md text-center cursor-pointer" data-drink-id="'' @
            ident @ js ''">'' @
            nl @ sp 24 @ js ''<img src="'' @ thumb @ js ''" alt="'' @ name1 @
              js ''" style="max-width: 150px; height: auto; margin: 0 auto;">'' @
            nl @ sp 24 @ js ''<h3 class="text-lg font-semibold">'' @ name2 @ js ''</h3>'' @
            nl @ sp 20 @ js ''</div>'' @
            nl @ sp 16))))))))\<close>

definition gridOpen :: jstring where
  \<open>gridOpen = js ''<div class="grid grid-cols-2 md:grid-cols-3 lg:grid-cols-4 gap-4">''\<close>

text \<open>Lines 235 to 245: the grid of a category's cocktails, written to the display region.\<close>

definition displayCocktailGrid :: "jsval \<Rightarrow> unit action" where
  "displayCocktailGrid drinks =
     bindA (liftE (forEach (js ''data.drinks'') drinks cocktailItem gridOpen)) (\<lambda>cocktailsHtml.
       setCocktailInnerHTML (cocktailsHtml @ js ''</div>''))"

definition fetchAndDisplayCocktailsByCategory :: "network \<Rightarrow> jstring \<Rightarrow> unit action" where
  \<open>fetchAndDisplayCocktailsByCategory net category =
     bindA (displayLoading
              (js ''Cargando c'' @ [0xF3] @ js ''cteles de la categor'' @ [0xED] @ js ''a "'' @
               category @ js ''"...'')) (\<lambda>_.
     tryCatch
       (bindA (liftE (encodeURIComponent category)) (\<lambda>enc.
        bindA (fetch net (cocktailApiBaseUrl @ js ''filter.php?c='' @ enc)) (\<lambda>response.
          if \<not> ok response then throwA (httpError (status response))
          else
            bindA (liftE (json response)) (\<lambda>data.
            bindA (liftE (getField data (js ''drinks''))) (\<lambda>drinks.
              if \<not> truthy drinks then
                setCocktailInnerHTML
                  (js ''<p class="error-text">No se encontraron c'' @ [0xF3] @
                   js ''cteles en la categor'' @ [0xED] @ js ''a "'' @ category @ js ''".</p>'')
              else displayCocktailGrid drinks)))))
       (\<lambda>error.
          displayError
            (js ''Error al cargar c'' @ [0xF3] @ js ''cteles de la categor'' @ [0xED] @
             js ''a "'' @ category @ js ''": '' @ message error)))\<close>

text \<open>The click listener of a category card, with \<open>category\<close> the card's tag.\<close>

definition categoryCardClick :: "network \<Rightarrow> jstring \<Rightarrow> unit action" where
  "categoryCardClick net category =
     bindA (setCocktailInnerHTML []) (\<lambda>_. fetchAndDisplayCocktailsByCategory net category)"

definition initializeCategories :: "network \<Rightarrow> unit action" where
  "initializeCategories net =
     bindA (fetchCocktailCategories net) (\<lambda>categories. displayCategories categories)"

section \<open>Vocabulary of the specification\<close>

text \<open>
  The specification's Absent: JavaScript has two values for "no value", and
  \<^verbatim>\<open>fetchCocktailData\<close> returns either; both fail the test \<^verbatim>\<open>if (drink)\<close>.
\<close>

definition isAbsent :: "jsval \<Rightarrow> bool" where
  "isAbsent v \<longleftrightarrow> v = JNull \<or> v = JUndefined"

text \<open>
  The error a request ends in, if any: the rejection of \<^verbatim>\<open>fetch\<close> (network error), a
  status outside 200..299 (HttpError), or the rejection of \<^verbatim>\<open>json()\<close> (ParseError).
\<close>

definition requestError :: "network \<Rightarrow> jstring \<Rightarrow> js_error option" where
  "requestError net url =
     (case net url of
        Inl e \<Rightarrow> Some e
      | Inr r \<Rightarrow>
          if \<not> ok r then Some (httpError (status r))
          else (case json r of Inl e \<Rightarrow> Some e | Inr data \<Rightarrow> None))"

text \<open>The five endpoints; \<open>enc\<close> is the encoded query value.\<close>

definition randomUrl :: jstring where
  "randomUrl = cocktailApiBaseUrl @ js ''random.php''"

definition searchUrl :: "jstring \<Rightarrow> jstring" where
  "searchUrl enc = cocktailApiBaseUrl @ js ''search.php?s='' @ enc"

definition lookupUrl :: "jstring \<Rightarrow> jstring" where
  "lookupUrl enc = cocktailApiBaseUrl @ js ''lookup.php?i='' @ enc"

definition filterUrl :: "jstring \<Rightarrow> jstring" where
  "filterUrl enc = cocktailApiBaseUrl @ js ''filter.php?c='' @ enc"

definition listUrl :: jstring where
  "listUrl = cocktailApiBaseUrl @ js ''list.php?c=list''"





definition categoriesErrorMessage :: "js_error \<Rightarrow> jstring" where
  "categoriesErrorMessage e =
     js ''Error al cargar las categor'' @ [0xED] @ js ''as: '' @ message e"

definition enterNameMessage :: jstring where
  "enterNameMessage =
     js ''Por favor, introduce un nombre de c'' @ [0xF3] @ js ''ctel para buscar.''"

text \<open>
  A record as the remote API sends it: an object whose fields are strings or \<^verbatim>\<open>null\<close>;
  any field may be missing.
\<close>

fun isText :: "jsval \<Rightarrow> bool" where
  "isText (JStr s) = True"
| "isText JNull = True"
| "isText v = False"

fun apiRecord :: "jsval \<Rightarrow> bool" where
  "apiRecord (JObj kvs) = list_all (\<lambda>(k, v). isText v) kvs"
| "apiRecord v = False"

fun textOf :: "jsval \<Rightarrow> jstring" where
  "textOf (JStr s) = s"
| "textOf v = []"

definition fieldOf :: "jsval \<Rightarrow> jstring \<Rightarrow> jsval" where
  "fieldOf r k = (case getField r k of Inl e \<Rightarrow> JUndefined | Inr v \<Rightarrow> v)"

text \<open>
  The ingredient list in the specification's words: the positions 1 to 15 up to the first
  missing ingredient, each rendered as one entry, the trimmed measure and a space first
  when there is a measure.
\<close>

definition ingredientAt :: "jsval \<Rightarrow> nat \<Rightarrow> jsval" where
  "ingredientAt drink i = fieldOf drink (js ''strIngredient'' @ decimal i)"

definition measureAt :: "jsval \<Rightarrow> nat \<Rightarrow> jsval" where
  "measureAt drink i = fieldOf drink (js ''strMeasure'' @ decimal i)"

definition hasIngredient :: "jsval \<Rightarrow> nat \<Rightarrow> bool" where
  "hasIngredient drink i = truthy (ingredientAt drink i)"

definition ingredientEntry :: "jsval \<Rightarrow> nat \<Rightarrow> jstring" where
  "ingredientEntry drink i =
     js ''<li>'' @
     (if truthy (measureAt drink i) then trim (textOf (measureAt drink i)) @ js '' '' else []) @
     trim (textOf (ingredientAt drink i)) @ js ''</li>''"

definition renderedPositions :: "jsval \<Rightarrow> nat list" where
  "renderedPositions drink = takeWhile (hasIngredient drink) [1..<16]"

fun isLog :: "console_entry \<Rightarrow> bool" where
  "isLog (ConsoleLog label v) = True"
| "isLog (ConsoleError label e) = False"


















text \<open>
  Valid markup, read as well-formed markup: scanning it from left to right, every \<^verbatim>\<open><\<close>
  opens a tag that has a name and is closed by \<^verbatim>\<open>>\<close>, every attribute value in double
  quotes is closed, every closing tag closes the element opened last, and no element is
  left open at the end. The scanner keeps the stack of open elements; \<open>InName\<close>, \<open>InAttrs\<close>
  and \<open>InValue\<close> are the positions inside a tag (the flag says that the tag is a closing
  tag, the string is its name).
\<close>

datatype scan_mode =
    InText
  | InName bool jstring
  | InAttrs bool jstring
  | InValue bool jstring

type_synonym scan_state = "scan_mode \<times> jstring list"

definition voidElement :: "jstring \<Rightarrow> bool" where
  "voidElement nm \<longleftrightarrow> nm \<in> set (map js [''img'', ''br'', ''hr'', ''input'', ''meta'', ''link''])"

definition isNameChar :: "jschar \<Rightarrow> bool" where
  "isNameChar c \<longleftrightarrow>
     (0x41 \<le> c \<and> c \<le> 0x5A) \<or> (0x61 \<le> c \<and> c \<le> 0x7A) \<or> (0x30 \<le> c \<and> c \<le> 0x39)"

definition isTagSpace :: "jschar \<Rightarrow> bool" where
  "isTagSpace c \<longleftrightarrow> c = 0x20 \<or> c = 0x0A \<or> c = 0x09 \<or> c = 0x0D \<or> c = 0x0C"

definition endTag :: "bool \<Rightarrow> jstring \<Rightarrow> jstring list \<Rightarrow> scan_state option" where
  "endTag closing nm stack =
     (if nm = [] then None
      else if closing then
        (case stack of
           [] \<Rightarrow> None
         | open # rest \<Rightarrow> if open = nm then Some (InText, rest) else None)
      else if voidElement nm then Some (InText, stack)
      else Some (InText, nm # stack))"

fun scanStep :: "scan_state \<Rightarrow> jschar \<Rightarrow> scan_state option" where
  "scanStep (InText, stack) c =
     (if c = 0x3C then Some (InName False [], stack) else Some (InText, stack))"
| "scanStep (InName closing nm, stack) c =
     (if c = 0x2F \<and> nm = [] \<and> \<not> closing then Some (InName True [], stack)
      else if c = 0x3E then endTag closing nm stack
      else if isTagSpace c then (if nm = [] then None else Some (InAttrs closing nm, stack))
      else if isNameChar c then Some (InName closing (nm @ [c]), stack)
      else None)"
| "scanStep (InAttrs closing nm, stack) c =
     (if c = 0x3E then endTag closing nm stack
      else if c = 0x22 then Some (InValue closing nm, stack)
      else if c = 0x3C then None
      else Some (InAttrs closing nm, stack))"
| "scanStep (InValue closing nm, stack) c =
     (if c = 0x22 then Some (InAttrs closing nm, stack) else Some (InValue closing nm, stack))"

fun scan :: "scan_state \<Rightarrow> jstring \<Rightarrow> scan_state option" where
  "scan st [] = Some st"
| "scan st (c # cs) = (case scanStep st c of None \<Rightarrow> None | Some st' \<Rightarrow> scan st' cs)"

definition wellFormed :: "jstring \<Rightarrow> bool" where
  "wellFormed h \<longleftrightarrow> scan (InText, []) h = Some (InText, [])"

text \<open>
  A string that can be inserted into text and into a quoted attribute value without
  changing the structure of the markup, and a record all of whose strings are such.
\<close>

definition safeText :: "jstring \<Rightarrow> bool" where
  "safeText v \<longleftrightarrow> list_all (\<lambda>c. c \<noteq> 0x3C \<and> c \<noteq> 0x22) v"

fun safeRecord :: "jsval \<Rightarrow> bool" where
  "safeRecord (JObj kvs) = list_all (\<lambda>(k, v). isText v \<and> safeText (textOf v)) kvs"
| "safeRecord v = False"

text \<open>
  Percent-encoding in the words of the specification. The reserved characters are
  ECMAScript's \<^verbatim>\<open>uriReserved\<close> and \<^verbatim>\<open>#\<close>. Decoding reads an encoded component once, from
  left to right: \<^verbatim>\<open>%\<close> and two hexadecimal digits give one octet, any other ASCII code
  unit stands for itself. \<open>utf8String\<close> is the UTF-8 encoding of a well-formed UTF-16
  string, the octets a query value stands for.
\<close>

definition uriReserved :: "jschar \<Rightarrow> bool" where
  "uriReserved c \<longleftrightarrow> c \<in> set (js '';/?:@&=+$,#'')"

definition hexValue :: "jschar \<Rightarrow> nat option" where
  "hexValue c =
     (if 0x30 \<le> c \<and> c \<le> 0x39 then Some (unat c - 0x30)
      else if 0x41 \<le> c \<and> c \<le> 0x46 then Some (unat c - 0x37)
      else if 0x61 \<le> c \<and> c \<le> 0x66 then Some (unat c - 0x57)
      else None)"

fun percentDecode :: "jstring \<Rightarrow> nat list option" where
  "percentDecode [] = Some []"
| "percentDecode (c # cs) =
     (if c = 0x25 then
        (case cs of
           h # l # rest \<Rightarrow>
             (case (hexValue h, hexValue l) of
                (Some a, Some b) \<Rightarrow> map_option ((#) (16 * a + b)) (percentDecode rest)
              | _ \<Rightarrow> None)
         | _ \<Rightarrow> None)
      else if c < 0x80 then map_option ((#) (unat c)) (percentDecode cs)
      else None)"

fun codePoints :: "jstring \<Rightarrow> nat list option" where
  "codePoints [] = Some []"
| "codePoints [c] = (if isLeadSurrogate c \<or> isTrailSurrogate c then None else Some [unat c])"
| "codePoints (c # d # cs) =
     (if isLeadSurrogate c then
        (if isTrailSurrogate d then map_option ((#) (surrogatePair c d)) (codePoints cs)
         else None)
      else if isTrailSurrogate c then None
      else map_option ((#) (unat c)) (codePoints (d # cs)))"

definition utf8String :: "jstring \<Rightarrow> nat list option" where
  "utf8String v = map_option (\<lambda>cps. concat (map utf8 cps)) (codePoints v)"

subsection \<open>Sample data\<close>

definition page0 :: page where
  "page0 =
     \<lparr>cocktailDisplayDiv = Some [], categoriesDisplayDiv = Some [],
      searchInput = Some (js '' ''), console = [], requests = []\<rparr>"

definition mojito :: jsval where
  "mojito =
     JObj [(js ''idDrink'', JStr (js ''11000'')),
           (js ''strDrink'', JStr (js ''Mojito'')),
           (js ''strGlass'', JNull),
           (js ''strIngredient1'', JStr (js ''Rum '')),
           (js ''strMeasure1'', JStr (js '' 2 oz '')),
           (js ''strIngredient2'', JStr (js ''Mint'')),
           (js ''strIngredient3'', JNull),
           (js ''strIngredient4'', JStr (js ''Lime''))]"



definition okNet :: "jsval \<Rightarrow> network" where
  "okNet body url = Inr \<lparr>status = 200, json = Inr body\<rparr>"

definition notFoundNet :: network where
  "notFoundNet url = Inr \<lparr>status = 404, json = Inr JNull\<rparr>"

section \<open>Basic facts\<close>

lemmas action_defs =
  returnA_def throwA_def liftE_def bindA_def tryCatch_def consoleLog_def consoleError_def
  fetch_def


lemma dropWhile_all: "\<forall>c\<in>set v. P c \<Longrightarrow> dropWhile P v = []"
  by (induction v) simp_all

lemma trim_whitespace_only: "\<forall>c\<in>set v. isWhiteSpace c \<Longrightarrow> trim v = []"
  by (simp add: trim_def dropWhile_all)

lemma trim_empty_iff: "trim v = [] \<longleftrightarrow> (\<forall>c\<in>set v. isWhiteSpace c)"
proof
  assume "trim v = []"
  then have all: "\<forall>c\<in>set (dropWhile isWhiteSpace v). isWhiteSpace c"
    by (simp add: trim_def dropWhile_eq_Nil_conv)
  have "dropWhile isWhiteSpace v = []"
  proof (rule ccontr)
    assume ne: "dropWhile isWhiteSpace v \<noteq> []"
    then have "\<not> isWhiteSpace (hd (dropWhile isWhiteSpace v))"
      by (rule hd_dropWhile)
    moreover from ne have "hd (dropWhile isWhiteSpace v) \<in> set (dropWhile isWhiteSpace v)"
      by simp
    ultimately show False
      using all by blast
  qed
  then show "\<forall>c\<in>set v. isWhiteSpace c"
    by (simp add: dropWhile_eq_Nil_conv)
qed (rule trim_whitespace_only)


lemma bindA_displayLoading:
  "bindA (displayLoading msg) k s = k () (snd (displayLoading msg s))"
  by (simp add: bindA_def displayLoading_def)


section \<open>The single-cocktail fetch\<close>

text \<open>
  C1. When the request succeeds and the parsed body has a \<^verbatim>\<open>drinks\<close> collection,
  \<open>fetchCocktailData\<close> returns an absent value if the collection is \<^verbatim>\<open>null\<close> (then
  \<^verbatim>\<open>null\<close>) or empty (then \<^verbatim>\<open>undefined\<close>, the element at index 0 of an empty array), and
  otherwise the first element of the collection. The URL is arbitrary, so this holds for
  the search, random and lookup endpoints alike.
\<close>

theorem fetchCocktailData_first_or_absent:
  assumes "net url = Inr r" and "ok r" and "json r = Inr data"
    and "getField data (js ''drinks'') = Inr drinks"
  shows "(drinks = JNull \<longrightarrow> fst (fetchCocktailData net url s) = Inr JNull) \<and>
         (drinks = JArr [] \<longrightarrow> fst (fetchCocktailData net url s) = Inr JUndefined) \<and>
         (\<forall>x xs. drinks = JArr (x # xs) \<longrightarrow> fst (fetchCocktailData net url s) = Inr x) \<and>
         (drinks = JNull \<or> drinks = JArr [] \<longrightarrow>
            (\<exists>v. fst (fetchCocktailData net url s) = Inr v \<and> isAbsent v))"
  using assms by (auto simp: fetchCocktailData_def action_defs isAbsent_def)

theorem fetchCocktailData_first_or_absent_witness:
  "fst (fetchCocktailData (okNet (JObj [(js ''drinks'', JArr [mojito, JNull])])) randomUrl page0)
     = Inr mojito \<and>
   fst (fetchCocktailData (okNet (JObj [(js ''drinks'', JArr [])])) randomUrl page0)
     = Inr JUndefined \<and>
   fst (fetchCocktailData (okNet (JObj [(js ''drinks'', JNull)])) randomUrl page0) = Inr JNull"
proof -
  have r: "ok \<lparr>status = 200, json = Inr body\<rparr>" for body
    by (simp add: ok_def)
  have 1: "fst (fetchCocktailData (okNet (JObj [(js ''drinks'', JArr [mojito, JNull])]))
      randomUrl page0) = Inr mojito"
    using fetchCocktailData_first_or_absent
      [of "okNet (JObj [(js ''drinks'', JArr [mojito, JNull])])" randomUrl
          "\<lparr>status = 200, json = Inr (JObj [(js ''drinks'', JArr [mojito, JNull])])\<rparr>"
          "JObj [(js ''drinks'', JArr [mojito, JNull])]" "JArr [mojito, JNull]" page0]
    by (simp add: okNet_def r)
  have 2: "fst (fetchCocktailData (okNet (JObj [(js ''drinks'', JArr [])])) randomUrl page0)
      = Inr JUndefined"
    using fetchCocktailData_first_or_absent
      [of "okNet (JObj [(js ''drinks'', JArr [])])" randomUrl
          "\<lparr>status = 200, json = Inr (JObj [(js ''drinks'', JArr [])])\<rparr>"
          "JObj [(js ''drinks'', JArr [])]" "JArr []" page0]
    by (simp add: okNet_def r)
  have 3: "fst (fetchCocktailData (okNet (JObj [(js ''drinks'', JNull)])) randomUrl page0)
      = Inr JNull"
    using fetchCocktailData_first_or_absent
      [of "okNet (JObj [(js ''drinks'', JNull)])" randomUrl
          "\<lparr>status = 200, json = Inr (JObj [(js ''drinks'', JNull)])\<rparr>"
          "JObj [(js ''drinks'', JNull)]" JNull page0]
    by (simp add: okNet_def r)
  from 1 2 3 show ?thesis by simp
qed

section \<open>Absent values in the renderers\<close>

text \<open>
  C7. \<open>displayCategories\<close> applied to the empty list and applied to the absent value
  (\<^verbatim>\<open>null\<close>, or \<^verbatim>\<open>undefined\<close>) give the same result: the categories region, when the page
  has one, holds the "none found" markup, and nothing else changes.
\<close>

theorem displayCategories_empty_eq_absent:
  "displayCategories (JArr []) s = displayCategories JNull s \<and>
   displayCategories JUndefined s = displayCategories JNull s \<and>
   displayCategories JNull s =
     (Inr (), case categoriesDisplayDiv s of
                None \<Rightarrow> s
              | Some h \<Rightarrow> s\<lparr>categoriesDisplayDiv := Some noCategoriesHtml\<rparr>)"
  by (simp add: displayCategories_def bindE_def split: option.splits)

theorem displayCategories_empty_eq_absent_witness:
  "displayCategories (JArr []) page0 = displayCategories JNull page0 \<and>
   displayCategories JNull page0 = (Inr (), page0\<lparr>categoriesDisplayDiv := Some noCategoriesHtml\<rparr>)"
  using displayCategories_empty_eq_absent [of page0] by (simp add: page0_def)

text \<open>
  C8. \<open>displayCocktail\<close> applied to an absent value returns without throwing, whatever
  the page held before; the display region, when the page has one, then holds the
  not-found message, and nothing else changes (nothing is written to the console: the
  catch branches are not involved).
\<close>

theorem displayCocktail_absent:
  assumes "\<not> truthy drink"
  shows "displayCocktail drink s =
           (Inr (), case cocktailDisplayDiv s of
                      None \<Rightarrow> s
                    | Some h \<Rightarrow> s\<lparr>cocktailDisplayDiv := Some notFoundHtml\<rparr>)"
  using assms by (simp add: displayCocktail_def split: option.splits)

theorem displayCocktail_absent_witness:
  "displayCocktail JNull page0 = (Inr (), page0\<lparr>cocktailDisplayDiv := Some notFoundHtml\<rparr>) \<and>
   displayCocktail JUndefined (page0\<lparr>cocktailDisplayDiv := Some (loadingHtml [])\<rparr>) =
     (Inr (), page0\<lparr>cocktailDisplayDiv := Some notFoundHtml\<rparr>)"
  using displayCocktail_absent [of JNull page0]
    displayCocktail_absent [of JUndefined "page0\<lparr>cocktailDisplayDiv := Some (loadingHtml [])\<rparr>"]
  by (simp add: page0_def)

section \<open>The search flow on an empty input\<close>

text \<open>
  C5. When the search field holds only white space (or nothing), the search flow is
  exactly \<open>displayError\<close> with the "enter a name" message: no request is issued, nothing
  is logged, and the display region, when the page has one, holds the validation error.
\<close>

theorem search_whitespace_only:
  assumes "searchInput s = Some v" and "\<forall>c\<in>set v. isWhiteSpace c"
  shows "searchAndDisplayCocktail net s = displayError enterNameMessage s \<and>
         fst (searchAndDisplayCocktail net s) = Inr () \<and>
         requests (snd (searchAndDisplayCocktail net s)) = requests s \<and>
         console (snd (searchAndDisplayCocktail net s)) = console s \<and>
         cocktailDisplayDiv (snd (searchAndDisplayCocktail net s)) =
           map_option (\<lambda>h. errorHtml enterNameMessage) (cocktailDisplayDiv s)"
proof -
  have "trim v = []"
    using assms(2) by (rule trim_whitespace_only)
  with assms(1) have "searchAndDisplayCocktail net s = displayError enterNameMessage s"
    by (simp add: searchAndDisplayCocktail_def enterNameMessage_def)
  then show ?thesis
    by (auto simp: displayError_def)
qed

theorem search_whitespace_only_witness:
  "searchInput page0 = Some (js '' '') \<and> list_all isWhiteSpace (js '' '') \<and>
   searchAndDisplayCocktail (okNet JNull) page0 =
     (Inr (), page0\<lparr>cocktailDisplayDiv := Some (errorHtml enterNameMessage)\<rparr>) \<and>
   requests (snd (searchAndDisplayCocktail (okNet JNull) page0)) = []"
proof -
  have 1: "searchInput page0 = Some (js '' '')"
    by (simp add: page0_def)
  have 2: "\<forall>c\<in>set (js '' ''). isWhiteSpace c"
    by (simp add: js_def isWhiteSpace_def)
  from search_whitespace_only [OF 1 2, of "okNet JNull"] 1 2 show ?thesis
    by (simp add: displayError_def page0_def list_all_iff)
qed


section \<open>Failures of a request\<close>











lemma bindA_liftE_Inr: "bindA (liftE (Inr v)) k = k v"
  by (rule ext) (simp add: bindA_def liftE_def)





lemma categories_fetch_fails:
  assumes "requestError net listUrl = Some e"
  shows "fetchCocktailCategories net s =
      (Inr JNull,
       snd (displayError (categoriesErrorMessage e)
         (s\<lparr>console := console s @ [ConsoleError (js ''Category Fetch error:'') e],
            requests := requests s @ [listUrl]\<rparr>)))"
  using assms
  by (auto simp: fetchCocktailCategories_def action_defs displayError_def
      requestError_def listUrl_def categoriesErrorMessage_def split: sum.splits if_splits)

lemma displayCategories_null:
  "displayCategories JNull s =
     (Inr (), case categoriesDisplayDiv s of
                None \<Rightarrow> s
              | Some h \<Rightarrow> s\<lparr>categoriesDisplayDiv := Some noCategoriesHtml\<rparr>)"
  by (simp add: displayCategories_def split: option.splits)



lemma requestError_notFoundNet: "requestError notFoundNet url = Some (httpError 404)"
  by (simp add: requestError_def notFoundNet_def ok_def)

section \<open>A failed category listing\<close>

text \<open>
  C10. When the request of the initial category listing fails with \<open>e\<close> on a page that has
  both regions, \<open>fetchCocktailCategories\<close> logs the error, writes the error markup into the
  cocktail display region and returns \<^verbatim>\<open>null\<close> instead of raising; \<open>initializeCategories\<close>
  then also replaces the categories region by the "no categories found" markup: both
  regions change.
\<close>

theorem failed_listing_updates_two_regions:
  assumes "requestError net listUrl = Some e"
    and "cocktailDisplayDiv s = Some h" and "categoriesDisplayDiv s = Some h'"
  shows "fetchCocktailCategories net s =
           (Inr JNull,
            s\<lparr>cocktailDisplayDiv := Some (errorHtml (categoriesErrorMessage e)),
              console := console s @ [ConsoleError (js ''Category Fetch error:'') e],
              requests := requests s @ [listUrl]\<rparr>) \<and>
         initializeCategories net s =
           (Inr (),
            s\<lparr>cocktailDisplayDiv := Some (errorHtml (categoriesErrorMessage e)),
              categoriesDisplayDiv := Some noCategoriesHtml,
              console := console s @ [ConsoleError (js ''Category Fetch error:'') e],
              requests := requests s @ [listUrl]\<rparr>)"
  using assms(2,3)
  by (simp add: initializeCategories_def bindA_def categories_fetch_fails [OF assms(1)]
      displayCategories_null displayError_def)

theorem failed_listing_updates_two_regions_witness:
  "requestError notFoundNet listUrl = Some (httpError 404) \<and>
   initializeCategories notFoundNet page0 =
     (Inr (),
      page0\<lparr>cocktailDisplayDiv := Some (errorHtml (categoriesErrorMessage (httpError 404))),
            categoriesDisplayDiv := Some noCategoriesHtml,
            console := [ConsoleError (js ''Category Fetch error:'') (httpError 404)],
            requests := [listUrl]\<rparr>)"
proof -
  have 1: "cocktailDisplayDiv page0 = Some []" and 2: "categoriesDisplayDiv page0 = Some []"
    by (simp_all add: page0_def)
  from failed_listing_updates_two_regions [OF requestError_notFoundNet 1 2]
  show ?thesis
    by (simp add: requestError_notFoundNet page0_def)
qed


section \<open>Diagnostic logging\<close>

lemma fetchCocktailCategories_requests:
  "requests (snd (fetchCocktailCategories net s)) = requests s @ [listUrl]"
  by (auto simp: fetchCocktailCategories_def action_defs displayError_def listUrl_def
      split: sum.splits if_splits)

lemma fetchCocktailCategories_logs:
  "filter isLog (console (snd (fetchCocktailCategories net s))) = filter isLog (console s)"
  by (auto simp: fetchCocktailCategories_def action_defs displayError_def
      split: sum.splits if_splits)

lemma setCocktailInnerHTML_keeps:
  "console (snd (setCocktailInnerHTML h s)) = console s"
  "requests (snd (setCocktailInnerHTML h s)) = requests s"
  by (simp_all add: setCocktailInnerHTML_def split: option.splits)

lemma displayError_keeps:
  "console (snd (displayError msg s)) = console s"
  "requests (snd (displayError msg s)) = requests s"
  by (simp_all add: displayError_def)

lemma displayLoading_keeps:
  "console (snd (displayLoading msg s)) = console s"
  "requests (snd (displayLoading msg s)) = requests s"
  by (simp_all add: displayLoading_def)

lemma displayCocktailGrid_keeps:
  "console (snd (displayCocktailGrid drinks s)) = console s"
  "requests (snd (displayCocktailGrid drinks s)) = requests s"
  by (simp_all add: displayCocktailGrid_def bindA_def liftE_def setCocktailInnerHTML_keeps
      split: sum.splits)

lemma tryCatch_displayError_keeps:
  "console (snd (tryCatch m (\<lambda>e. displayError (f e)) s)) = console (snd (m s))"
  "requests (snd (tryCatch m (\<lambda>e. displayError (f e)) s)) = requests (snd (m s))"
  by (cases "m s"; auto simp: tryCatch_def displayError_keeps split: sum.splits)+

lemma throwA_keeps:
  "console (snd (throwA e s :: (js_error + 'a) \<times> page)) = console s"
  "requests (snd (throwA e s :: (js_error + 'a) \<times> page)) = requests s"
  by (simp_all add: throwA_def)

lemma bindA_liftE_keeps:
  "(\<And>v s'. console (snd (k v s')) = console s') \<Longrightarrow>
     console (snd (bindA (liftE r) k s)) = console s"
  "(\<And>v s'. requests (snd (k v s')) = requests s') \<Longrightarrow>
     requests (snd (bindA (liftE r) k s)) = requests s"
  by (cases r; simp add: bindA_def liftE_def)+

lemma bindA_fetch_trace:
  "(\<And>v s'. console (snd (k v s')) = console s') \<Longrightarrow>
     console (snd (bindA (fetch net url) k s)) = console s"
  "(\<And>v s'. requests (snd (k v s')) = requests s') \<Longrightarrow>
     requests (snd (bindA (fetch net url) k s)) = requests s @ [url]"
  by (cases "net url"; simp add: bindA_def fetch_def)+

lemma category_flow_trace:
  assumes "encodeURIComponent category = Inr enc"
  shows "requests (snd (fetchAndDisplayCocktailsByCategory net category s)) =
           requests s @ [filterUrl enc]"
    and "console (snd (fetchAndDisplayCocktailsByCategory net category s)) = console s"
  by (simp_all add: fetchAndDisplayCocktailsByCategory_def bindA_displayLoading
      tryCatch_displayError_keeps bindA_liftE_Inr assms bindA_fetch_trace bindA_liftE_keeps
      throwA_keeps setCocktailInnerHTML_keeps displayCocktailGrid_keeps displayLoading_keeps
      filterUrl_def)

lemma fetchCocktailData_trace:
  "\<exists>rest. console (snd (fetchCocktailData net url s)) =
            console s @ ConsoleLog (js ''Fetching URL:'') url # rest"
  "requests (snd (fetchCocktailData net url s)) = requests s @ [url]"
  by (auto simp: fetchCocktailData_def action_defs split: sum.splits if_splits)

text \<open>
  C9. Only \<open>fetchCocktailData\<close> writes the URL to the console (its first console entry,
  for every answer of the network). \<open>fetchCocktailCategories\<close> issues its request and adds
  no log line, and \<open>fetchAndDisplayCocktailsByCategory\<close> issues its request and leaves the
  console as it was.
\<close>

theorem category_requests_not_logged:
  "requests (snd (fetchCocktailCategories net s)) = requests s @ [listUrl] \<and>
   filter isLog (console (snd (fetchCocktailCategories net s))) = filter isLog (console s) \<and>
   (\<forall>enc. encodeURIComponent category = Inr enc \<longrightarrow>
      requests (snd (fetchAndDisplayCocktailsByCategory net category s)) =
        requests s @ [filterUrl enc] \<and>
      console (snd (fetchAndDisplayCocktailsByCategory net category s)) = console s) \<and>
   (\<exists>rest. console (snd (fetchCocktailData net url s)) =
            console s @ ConsoleLog (js ''Fetching URL:'') url # rest) \<and>
   requests (snd (fetchCocktailData net url s)) = requests s @ [url]"
  using fetchCocktailCategories_requests [of net s] fetchCocktailCategories_logs [of net s]
    category_flow_trace [of category _ net s] fetchCocktailData_trace [of net url s]
  by blast

theorem category_requests_not_logged_witness:
  "requests (snd (fetchCocktailCategories (okNet (JObj [(js ''drinks'', JArr [mojito])])) page0)) =
     [listUrl] \<and>
   filter isLog
     (console (snd (fetchCocktailCategories (okNet (JObj [(js ''drinks'', JArr [mojito])])) page0)))
     = [] \<and>
   requests (snd (fetchAndDisplayCocktailsByCategory notFoundNet (js ''Shot'') page0)) =
     [filterUrl (js ''Shot'')] \<and>
   console (snd (fetchAndDisplayCocktailsByCategory notFoundNet (js ''Shot'') page0)) = []"
proof -
  have enc: "encodeURIComponent (js ''Shot'') = Inr (js ''Shot'')"
    by (simp add: js_def uriUnescaped_def bindE_def)
  have p: "requests page0 = []" "console page0 = []"
    by (simp_all add: page0_def)
  from category_requests_not_logged
    [of "okNet (JObj [(js ''drinks'', JArr [mojito])])" page0 "js ''Shot''" randomUrl]
  have 1: "requests (snd (fetchCocktailCategories
      (okNet (JObj [(js ''drinks'', JArr [mojito])])) page0)) = [listUrl]"
    and 2: "filter isLog (console (snd (fetchCocktailCategories
      (okNet (JObj [(js ''drinks'', JArr [mojito])])) page0))) = []"
    by (simp_all add: p)
  from category_requests_not_logged [of notFoundNet page0 "js ''Shot''" randomUrl] enc
  have 3: "requests (snd (fetchAndDisplayCocktailsByCategory notFoundNet (js ''Shot'') page0)) =
      [filterUrl (js ''Shot'')]"
    and 4: "console (snd (fetchAndDisplayCocktailsByCategory notFoundNet (js ''Shot'') page0)) = []"
    by (simp_all add: p)
  from 1 2 3 4 show ?thesis by simp
qed

section \<open>Rendering records of the API\<close>

lemma record_getField:
  assumes "apiRecord r"
  shows "getField r k = Inr (fieldOf r k)"
  using assms by (cases r) (simp_all add: fieldOf_def)

lemma record_field_text:
  assumes "apiRecord r"
  shows "fieldOf r k = JUndefined \<or> isText (fieldOf r k)"
proof (cases r)
  case (JObj kvs)
  show ?thesis
  proof (cases "map_of kvs k")
    case None
    with JObj show ?thesis by (simp add: fieldOf_def)
  next
    case (Some v)
    then have "(k, v) \<in> set kvs" by (rule map_of_SomeD)
    with assms JObj have "isText v" by (auto simp: list_all_iff)
    with JObj Some show ?thesis by (simp add: fieldOf_def)
  qed
qed (use assms in simp_all)

lemma callTrim_text:
  assumes "v = JUndefined \<or> isText v" and "truthy v"
  shows "callTrim what v = Inr (trim (textOf v))"
  using assms by (cases v) simp_all

lemma toStr_text:
  assumes "v = JUndefined \<or> isText v"
  shows "\<exists>t. toStr v = Inr t"
  using assms by (cases v) simp_all

lemma toStr_field:
  assumes "apiRecord r"
  shows "\<exists>t. toStr (fieldOf r k) = Inr t"
  using record_field_text [OF assms] by (rule toStr_text)

lemma ingredientsLoop_record:
  assumes "apiRecord drink"
  shows "i \<le> 16 \<Longrightarrow>
    ingredientsLoop drink i html =
      Inr (html @ concat (map (ingredientEntry drink) (takeWhile (hasIngredient drink) [i..<16])))"
proof (induction "16 - i" arbitrary: i html)
  case 0
  then have "i = 16" by simp
  then show ?case by (simp add: ingredientsLoop.simps)
next
  case (Suc n)
  then have i: "i \<le> 15" and up: "[i..<16] = i # [Suc i..<16]"
    by (simp_all add: upt_conv_Cons)
  have IH: "\<And>h. ingredientsLoop drink (Suc i) h =
      Inr (h @ concat (map (ingredientEntry drink) (takeWhile (hasIngredient drink) [Suc i..<16])))"
    using Suc by simp
  have ing: "getField drink (js ''strIngredient'' @ decimal i) = Inr (ingredientAt drink i)"
    and mea: "getField drink (js ''strMeasure'' @ decimal i) = Inr (measureAt drink i)"
    by (simp_all add: record_getField [OF assms] ingredientAt_def measureAt_def)
  have ti: "truthy (ingredientAt drink i) \<Longrightarrow>
      callTrim (js ''ingredient'') (ingredientAt drink i) =
        Inr (trim (textOf (ingredientAt drink i)))"
    and tm: "truthy (measureAt drink i) \<Longrightarrow>
      callTrim (js ''measure'') (measureAt drink i) = Inr (trim (textOf (measureAt drink i)))"
    using record_field_text [OF assms]
    by (simp_all add: callTrim_text ingredientAt_def measureAt_def)
  show ?case
    by (subst ingredientsLoop.simps)
       (simp add: i up ing mea ti tm IH bindE_def hasIngredient_def ingredientEntry_def)
qed

lemma ingredientsHtml_record:
  assumes "apiRecord drink"
  shows "ingredientsHtml drink =
    Inr (js ''<ul>'' @ concat (map (ingredientEntry drink) (renderedPositions drink)) @
         js ''</ul>'')"
  by (simp add: ingredientsHtml_def ingredientsLoop_record [OF assms] bindE_def
      renderedPositions_def)

lemma upt_1_16: "[1..<16] = 1 # 2 # 3 # [4..<16]"
  by (simp add: upt_conv_Cons)

lemma gap_at_3:
  assumes "hasIngredient drink 1" and "hasIngredient drink 2" and "\<not> hasIngredient drink 3"
  shows "renderedPositions drink = [1, 2]"
proof -
  have "renderedPositions drink = takeWhile (hasIngredient drink) (1 # 2 # 3 # [4..<16])"
    by (simp only: renderedPositions_def upt_1_16)
  also have "\<dots> = [1, 2]"
    by (simp only: takeWhile.simps assms if_True if_False)
  finally show ?thesis .
qed

lemma around_here: "\<exists>pre post. \<forall>x. x @ r = pre @ x @ (post :: 'a list)"
  by (rule exI [of _ "[]"]) simp

lemma around_later:
  assumes "\<exists>pre post. \<forall>x. g x = pre @ x @ (post :: 'a list)"
  shows "\<exists>pre post. \<forall>x. a @ g x = pre @ x @ post"
proof -
  from assms obtain pre post where "\<forall>x. g x = pre @ x @ post" by blast
  then have "\<forall>x. a @ g x = (a @ pre) @ x @ post" by simp
  then show ?thesis by blast
qed

lemma optionalLine_text:
  assumes "v = JUndefined \<or> isText v"
  shows "\<exists>t. optionalLine label v = Inr t"
  using toStr_text [OF assms] by (auto simp: optionalLine_def bindE_def)

lemma cocktailHtml_record:
  assumes "apiRecord drink"
  shows "\<exists>pre post. \<forall>ingredients. cocktailHtml drink ingredients = Inr (pre @ ingredients @ post)"
proof -
  note f = record_field_text [OF assms]
  obtain name where name: "toStr (fieldOf drink (js ''strDrink'')) = Inr name"
    using toStr_text [OF f] by blast
  obtain thumb where thumb: "toStr (fieldOf drink (js ''strDrinkThumb'')) = Inr thumb"
    using toStr_text [OF f] by blast
  obtain category where category:
    "optionalLine (js ''Categor'' @ [0xED] @ js ''a:'') (fieldOf drink (js ''strCategory'')) =
       Inr category"
    using optionalLine_text [OF f] by blast
  obtain alcoholic where alcoholic:
    "optionalLine (js ''Tipo:'') (fieldOf drink (js ''strAlcoholic'')) = Inr alcoholic"
    using optionalLine_text [OF f] by blast
  obtain glass where glass:
    "optionalLine (js ''Vaso recomendado:'') (fieldOf drink (js ''strGlass'')) = Inr glass"
    using optionalLine_text [OF f] by blast
  have "\<exists>t. (if truthy (fieldOf drink (js ''strInstructions''))
      then toStr (fieldOf drink (js ''strInstructions''))
      else Inr (js ''Instrucciones no disponibles.'')) = Inr t"
    using toStr_text [OF f, of "js ''strInstructions''"] by simp
  then obtain instructions where instructions:
    "(if truthy (fieldOf drink (js ''strInstructions''))
      then toStr (fieldOf drink (js ''strInstructions''))
      else Inr (js ''Instrucciones no disponibles.'')) = Inr instructions"
    by blast
  have \<open>\<exists>pre post. \<forall>ingredients.
      nl @ sp 12 @ js ''<h3>'' @ name @ js ''</h3>'' @
            nl @ sp 12 @ js ''<img src="'' @ thumb @ js ''" alt="[Imagen de '' @ name @
              js '']" onerror="this.style.display='none'">'' @
            nl @ sp 12 @ category @
            nl @ sp 12 @ alcoholic @
            nl @ sp 12 @ glass @
            nl @
            nl @ sp 12 @ js ''<h4>Ingredientes:</h4>'' @
            nl @ sp 12 @ ingredients @
            nl @
            nl @ sp 12 @ js ''<h4>Instrucciones:</h4>'' @
            nl @ sp 12 @ js ''<p>'' @ instructions @ js ''</p>'' @
            nl @ sp 8 = pre @ ingredients @ post\<close>
    by (intro around_later around_here)
  then show ?thesis
    using name thumb category alcoholic glass instructions
    by (simp add: cocktailHtml_def record_getField [OF assms] bindE_def)
qed

lemma displayCocktail_record:
  assumes "apiRecord drink"
  shows "\<exists>pre post. displayCocktail drink s =
    (Inr (), case cocktailDisplayDiv s of
               None \<Rightarrow> s
             | Some h \<Rightarrow>
                 s\<lparr>cocktailDisplayDiv :=
                     Some (pre @ js ''<ul>'' @
                           concat (map (ingredientEntry drink) (renderedPositions drink)) @
                           js ''</ul>'' @ post)\<rparr>)"
proof -
  from cocktailHtml_record [OF assms] obtain pre post
    where h: "\<And>ingredients. cocktailHtml drink ingredients = Inr (pre @ ingredients @ post)"
    by blast
  have t: "truthy drink"
    using assms by (cases drink) simp_all
  have "displayCocktail drink s =
    (Inr (), case cocktailDisplayDiv s of
               None \<Rightarrow> s
             | Some h \<Rightarrow>
                 s\<lparr>cocktailDisplayDiv :=
                     Some (pre @ js ''<ul>'' @
                           concat (map (ingredientEntry drink) (renderedPositions drink)) @
                           js ''</ul>'' @ post)\<rparr>)"
    by (simp add: displayCocktail_def t ingredientsHtml_record [OF assms] h bindE_def
        split: option.splits)
  then show ?thesis by blast
qed

text \<open>
  C3. For a record of the API, the ingredient list is the entries of the positions 1 to
  15 before the first position without an ingredient, in order, inside \<^verbatim>\<open><ul>\<close>; an
  entry is the trimmed measure and a space (nothing when there is no measure) followed by
  the trimmed ingredient. With ingredients at positions 1 and 2 and none at 3, exactly the
  entries of 1 and 2 are rendered, whatever position 4 holds. The list is part of the
  markup \<open>displayCocktail\<close> writes.
\<close>

theorem ingredient_list_stops_at_first_gap:
  assumes "apiRecord drink"
  shows "ingredientsHtml drink =
           Inr (js ''<ul>'' @ concat (map (ingredientEntry drink) (renderedPositions drink)) @
                js ''</ul>'') \<and>
         renderedPositions drink = takeWhile (hasIngredient drink) [1..<16] \<and>
         (hasIngredient drink 1 \<and> hasIngredient drink 2 \<and> \<not> hasIngredient drink 3 \<longrightarrow>
            renderedPositions drink = [1, 2]) \<and>
         (\<exists>pre post. \<forall>h. cocktailDisplayDiv s = Some h \<longrightarrow>
            displayCocktail drink s =
              (Inr (),
               s\<lparr>cocktailDisplayDiv :=
                   Some (pre @ js ''<ul>'' @
                         concat (map (ingredientEntry drink) (renderedPositions drink)) @
                         js ''</ul>'' @ post)\<rparr>))"
proof -
  from displayCocktail_record [OF assms, of s] obtain pre post where
    "displayCocktail drink s =
    (Inr (), case cocktailDisplayDiv s of
               None \<Rightarrow> s
             | Some h \<Rightarrow>
                 s\<lparr>cocktailDisplayDiv :=
                     Some (pre @ js ''<ul>'' @
                           concat (map (ingredientEntry drink) (renderedPositions drink)) @
                           js ''</ul>'' @ post)\<rparr>)"
    by blast
  then have "\<forall>h. cocktailDisplayDiv s = Some h \<longrightarrow>
            displayCocktail drink s =
              (Inr (),
               s\<lparr>cocktailDisplayDiv :=
                   Some (pre @ js ''<ul>'' @
                         concat (map (ingredientEntry drink) (renderedPositions drink)) @
                         js ''</ul>'' @ post)\<rparr>)"
    by simp
  then show ?thesis
    using ingredientsHtml_record [OF assms] gap_at_3 [of drink]
    by (auto simp: renderedPositions_def)
qed

lemma decimal_digits:
  "decimal (Suc 0) = js ''1''" "decimal 1 = js ''1''" "decimal 2 = js ''2''" "decimal 3 = js ''3''" "decimal 4 = js ''4''"
  by (simp_all add: decimal.simps js_def)

lemma mojito_record: "apiRecord mojito"
  by (simp add: mojito_def)

theorem ingredient_list_stops_at_first_gap_witness:
  "apiRecord mojito \<and> truthy (ingredientAt mojito 4) \<and>
   ingredientsHtml mojito = Inr (js ''<ul><li>2 oz Rum</li><li>Mint</li></ul>'')"
proof -
  have 1: "hasIngredient mojito 1" and 2: "hasIngredient mojito 2"
    and 3: "\<not> hasIngredient mojito 3" and 4: "truthy (ingredientAt mojito 4)"
    by (simp_all add: hasIngredient_def ingredientAt_def fieldOf_def mojito_def decimal_digits
        js_def)
  note t = ingredient_list_stops_at_first_gap [OF mojito_record, of page0]
  from t 1 2 3 have p: "renderedPositions mojito = [1, 2]"
    by blast
  from t have h: "ingredientsHtml mojito =
      Inr (js ''<ul>'' @ concat (map (ingredientEntry mojito) (renderedPositions mojito)) @
           js ''</ul>'')"
    by blast
  have e1: "ingredientEntry mojito (Suc 0) = js ''<li>2 oz Rum</li>''"
    by (simp add: ingredientEntry_def measureAt_def ingredientAt_def fieldOf_def mojito_def
        decimal_digits js_def trim_def isWhiteSpace_def)
  have e2: "ingredientEntry mojito 2 = js ''<li>Mint</li>''"
    by (simp add: ingredientEntry_def measureAt_def ingredientAt_def fieldOf_def mojito_def
        decimal_digits js_def trim_def isWhiteSpace_def)
  have "ingredientsHtml mojito = Inr (js ''<ul><li>2 oz Rum</li><li>Mint</li></ul>'')"
    unfolding h p by (simp add: e1 e2) (simp add: js_def)
  with mojito_record 4 show ?thesis by simp
qed

section \<open>What the renderers write\<close>















section \<open>Well-formed markup\<close>







lemma safeText_append: "safeText (a @ b) \<longleftrightarrow> safeText a \<and> safeText b"
  by (simp add: safeText_def)



lemma safeRecord_apiRecord:
  assumes "safeRecord r"
  shows "apiRecord r"
  using assms by (cases r) (auto simp: list_all_iff)












lemma wellFormed_messages:
  "wellFormed notFoundHtml" "wellFormed noCategoriesHtml"
  by (simp_all add: wellFormed_def notFoundHtml_def noCategoriesHtml_def js_def endTag_def
      voidElement_def isNameChar_def isTagSpace_def)












section \<open>Errors at the boundary of the flows\<close>









section \<open>Percent-encoding of query values\<close>

lemma hexDigit_table: "list_all (\<lambda>d. uriUnescaped (hexDigit d) \<and> hexValue (hexDigit d) = Some d) [0..<16]"
  by code_simp

lemma hexDigit_facts:
  assumes "d < 16"
  shows "uriUnescaped (hexDigit d)" and "hexValue (hexDigit d) = Some d"
  using hexDigit_table assms by (simp_all add: list_all_iff)

lemma unescaped_ascii:
  assumes "uriUnescaped c"
  shows "c \<noteq> 0x25" and "c < 0x80" and "unat c < 0x80"
    and "\<not> isLeadSurrogate c" and "\<not> isTrailSurrogate c" and "\<not> uriReserved c"
  using assms
  by (auto simp: uriUnescaped_def uriReserved_def isLeadSurrogate_def isTrailSurrogate_def
      js_def word_le_nat_alt word_less_nat_alt)

lemma percent_not_reserved: "\<not> uriReserved 0x25"
  by (simp add: uriReserved_def js_def)

lemma utf8_octets:
  assumes "cp < 0x110000"
  shows "\<forall>b\<in>set (utf8 cp). b < 256"
  using assms by (auto simp: utf8_def)

lemma surrogatePair_bound:
  assumes "isLeadSurrogate c" and "isTrailSurrogate d"
  shows "surrogatePair c d < 0x110000"
proof -
  from assms have c: "unat c - 0xD800 \<le> 1023" and d: "unat d - 0xDC00 \<le> 1023"
    by (auto simp: isLeadSurrogate_def isTrailSurrogate_def word_le_nat_alt)
  from c have "(unat c - 0xD800) * 0x400 \<le> 1023 * 0x400"
    by (rule mult_le_mono1)
  with d show ?thesis
    unfolding surrogatePair_def by linarith
qed

lemma unit_bound: "unat (c :: jschar) < 0x110000"
proof -
  have "unat c < 2 ^ LENGTH(16)"
    by (rule unsigned_less)
  then show ?thesis by simp
qed

lemma percentOctet_chars:
  assumes "b < 256"
  shows "\<forall>c\<in>set (percentOctet b). uriUnescaped c \<or> c = 0x25"
  using assms by (simp add: percentOctet_def hexDigit_facts)

lemma percentEncode_chars:
  assumes "cp < 0x110000"
  shows "\<forall>c\<in>set (percentEncode cp). uriUnescaped c \<or> c = 0x25"
  using utf8_octets [OF assms] percentOctet_chars by (auto simp: percentEncode_def)

lemma percentDecode_octet:
  assumes "b < 256"
  shows "percentDecode (percentOctet b @ r) = map_option ((#) b) (percentDecode r)"
  using assms by (simp add: percentOctet_def hexDigit_facts)

lemma percentDecode_octets:
  assumes "\<forall>b\<in>set bs. b < 256"
  shows "percentDecode (concat (map percentOctet bs) @ r) = map_option ((@) bs) (percentDecode r)"
  using assms
proof (induction bs)
  case Nil
  show ?case by (simp add: option.map_ident)
next
  case (Cons b bs)
  then show ?case
    by (simp add: percentDecode_octet option.map_comp comp_def)
qed

lemma percentDecode_encoded:
  assumes "cp < 0x110000"
  shows "percentDecode (percentEncode cp @ r) = map_option ((@) (utf8 cp)) (percentDecode r)"
  using percentDecode_octets [OF utf8_octets [OF assms]] by (simp add: percentEncode_def)

lemma codePoints_plain:
  assumes "\<not> isLeadSurrogate c" and "\<not> isTrailSurrogate c"
  shows "codePoints (c # cs) = map_option ((#) (unat c)) (codePoints cs)"
  using assms by (cases cs) simp_all

lemma utf8String_plain:
  assumes "\<not> isLeadSurrogate c" and "\<not> isTrailSurrogate c"
  shows "utf8String (c # cs) = map_option ((@) (utf8 (unat c))) (utf8String cs)"
  by (simp add: utf8String_def codePoints_plain [OF assms] option.map_comp comp_def)

lemma utf8String_pair:
  assumes "isLeadSurrogate c" and "isTrailSurrogate d"
  shows "utf8String (c # d # cs) = map_option ((@) (utf8 (surrogatePair c d))) (utf8String cs)"
  using assms by (simp add: utf8String_def option.map_comp comp_def)

lemma utf8_ascii: "cp < 0x80 \<Longrightarrow> utf8 cp = [cp]"
  by (simp add: utf8_def)

lemma encodeURIComponent_chars:
  "encodeURIComponent v = Inr enc \<Longrightarrow> \<forall>c\<in>set enc. uriUnescaped c \<or> c = 0x25"
proof (induction v arbitrary: enc rule: encodeURIComponent.induct)
  case 1
  then show ?case by simp
next
  case (2 c cs)
  show ?case
  proof (cases "uriUnescaped c")
    case True
    with "2.prems" obtain r where r: "encodeURIComponent cs = Inr r" and e: "enc = c # r"
      by (auto simp: bindE_def split: sum.splits)
    from "2.IH"(1) [OF True r] True e show ?thesis by simp
  next
    case False
    note unesc = this
    show ?thesis
    proof (cases "isTrailSurrogate c")
      case True
      with unesc "2.prems" show ?thesis by simp
    next
      case False
      note trail = this
      show ?thesis
      proof (cases "isLeadSurrogate c")
        case True
        with unesc trail "2.prems" obtain d ds r where cs: "cs = d # ds"
          and d: "isTrailSurrogate d" and r: "encodeURIComponent ds = Inr r"
          and e: "enc = percentEncode (surrogatePair c d) @ r"
          by (auto simp: bindE_def split: sum.splits list.splits if_splits)
        from "2.IH"(2) [OF unesc trail True cs d r]
          percentEncode_chars [OF surrogatePair_bound [OF True d]] e
        show ?thesis by auto
      next
        case False
        with unesc trail "2.prems" obtain r where r: "encodeURIComponent cs = Inr r"
          and e: "enc = percentEncode (unat c) @ r"
          by (auto simp: bindE_def split: sum.splits)
        from "2.IH"(3) [OF unesc trail False r] percentEncode_chars [OF unit_bound [of c]] e
        show ?thesis by auto
      qed
    qed
  qed
qed

lemma encodeURIComponent_decodes:
  "encodeURIComponent v = Inr enc \<Longrightarrow>
     \<exists>octets. utf8String v = Some octets \<and> percentDecode enc = Some octets"
proof (induction v arbitrary: enc rule: encodeURIComponent.induct)
  case 1
  then show ?case by (simp add: utf8String_def)
next
  case (2 c cs)
  show ?case
  proof (cases "uriUnescaped c")
    case True
    with "2.prems" obtain r where r: "encodeURIComponent cs = Inr r" and e: "enc = c # r"
      by (auto simp: bindE_def split: sum.splits)
    from "2.IH"(1) [OF True r] obtain octets
      where o: "utf8String cs = Some octets" "percentDecode r = Some octets"
      by blast
    note a = unescaped_ascii [OF True]
    have "utf8String (c # cs) = Some (unat c # octets)"
      by (simp add: utf8String_plain [OF a(4,5)] o utf8_ascii [OF a(3)])
    moreover have "percentDecode enc = Some (unat c # octets)"
      using a(1,2) by (simp add: e o)
    ultimately show ?thesis by simp
  next
    case False
    note unesc = this
    show ?thesis
    proof (cases "isTrailSurrogate c")
      case True
      with unesc "2.prems" show ?thesis by simp
    next
      case False
      note trail = this
      show ?thesis
      proof (cases "isLeadSurrogate c")
        case True
        with unesc trail "2.prems" obtain d ds r where cs: "cs = d # ds"
          and d: "isTrailSurrogate d" and r: "encodeURIComponent ds = Inr r"
          and e: "enc = percentEncode (surrogatePair c d) @ r"
          by (auto simp: bindE_def split: sum.splits list.splits if_splits)
        from "2.IH"(2) [OF unesc trail True cs d r] obtain octets
          where o: "utf8String ds = Some octets" "percentDecode r = Some octets"
          by blast
        show ?thesis
          by (simp add: cs e utf8String_pair [OF True d] o
              percentDecode_encoded [OF surrogatePair_bound [OF True d]])
      next
        case False
        with unesc trail "2.prems" obtain r where r: "encodeURIComponent cs = Inr r"
          and e: "enc = percentEncode (unat c) @ r"
          by (auto simp: bindE_def split: sum.splits)
        from "2.IH"(3) [OF unesc trail False r] obtain octets
          where o: "utf8String cs = Some octets" "percentDecode r = Some octets"
          by blast
        show ?thesis
          by (simp add: e utf8String_plain [OF False trail] o
              percentDecode_encoded [OF unit_bound [of c]])
      qed
    qed
  qed
qed

lemma displayCocktail_keeps:
  "console (snd (displayCocktail drink s)) = console s"
  "requests (snd (displayCocktail drink s)) = requests s"
  by (simp_all add: displayCocktail_def split: sum.splits)

lemma single_flow_requests:
  "requests (snd (tryCatch (bindA (fetchCocktailData net url) displayCocktail)
     (\<lambda>e. displayError (f e)) s)) = requests s @ [url]"
proof -
  obtain r s' where r: "fetchCocktailData net url s = (r, s')"
    by (cases "fetchCocktailData net url s")
  with fetchCocktailData_trace(2) [of net url s] have "requests s' = requests s @ [url]"
    by simp
  with r show ?thesis
    by (cases r) (simp_all add: tryCatch_displayError_keeps bindA_def displayCocktail_keeps)
qed

lemma search_flow_request:
  assumes "searchInput s = Some raw" and "trim raw \<noteq> []"
    and "encodeURIComponent (trim raw) = Inr enc"
  shows "requests (snd (searchAndDisplayCocktail net s)) = requests s @ [searchUrl enc]"
  by (simp add: searchAndDisplayCocktail_def assms bindA_displayLoading bindA_liftE_Inr
      single_flow_requests displayLoading_keeps searchUrl_def)

lemma details_flow_request:
  assumes "encodeURIComponent drinkId = Inr enc"
  shows "requests (snd (fetchAndDisplayCocktailDetails net drinkId s)) =
           requests s @ [lookupUrl enc]"
  by (simp add: fetchAndDisplayCocktailDetails_def assms bindA_displayLoading bindA_liftE_Inr
      single_flow_requests displayLoading_keeps lookupUrl_def)

text \<open>
  C6. Let \<open>enc\<close> be what \<open>encodeURIComponent\<close> makes of a value \<open>v\<close>. Every code unit of
  \<open>enc\<close> is an unescaped character or \<^verbatim>\<open>%\<close>, so no reserved character is left; decoding
  \<open>enc\<close> once gives exactly the UTF-8 octets of \<open>v\<close>, so nothing is encoded twice; and the
  search flow (with \<open>v\<close> the trimmed search field), the category flow and the detail flow
  each request the endpoint's URL followed by \<open>enc\<close> and nothing else.
\<close>

theorem query_value_encoded_once:
  assumes "encodeURIComponent v = Inr enc"
  shows "(\<forall>c\<in>set enc. uriUnescaped c \<or> c = 0x25) \<and>
         (\<forall>c\<in>set enc. \<not> uriReserved c) \<and>
         (\<exists>octets. utf8String v = Some octets \<and> percentDecode enc = Some octets) \<and>
         (\<forall>raw. searchInput s = Some raw \<and> trim raw = v \<and> v \<noteq> [] \<longrightarrow>
            requests (snd (searchAndDisplayCocktail net s)) = requests s @ [searchUrl enc]) \<and>
         requests (snd (fetchAndDisplayCocktailsByCategory net v s)) =
           requests s @ [filterUrl enc] \<and>
         requests (snd (fetchAndDisplayCocktailDetails net v s)) = requests s @ [lookupUrl enc]"
proof -
  note chars = encodeURIComponent_chars [OF assms]
  have reserved: "\<forall>c\<in>set enc. \<not> uriReserved c"
    using chars unescaped_ascii(6) percent_not_reserved by blast
  have search: "\<forall>raw. searchInput s = Some raw \<and> trim raw = v \<and> v \<noteq> [] \<longrightarrow>
      requests (snd (searchAndDisplayCocktail net s)) = requests s @ [searchUrl enc]"
    using search_flow_request assms by blast
  show ?thesis
    using chars reserved encodeURIComponent_decodes [OF assms] search
      category_flow_trace(1) [OF assms] details_flow_request [OF assms]
    by (intro conjI) assumption+
qed

theorem query_value_encoded_once_witness:
  "encodeURIComponent (js ''a&b '' @ [0xF3]) = Inr (js ''a%26b%20%C3%B3'') \<and>
   percentDecode (js ''a%26b%20%C3%B3'') = Some [0x61, 0x26, 0x62, 0x20, 0xC3, 0xB3] \<and>
   list_all (\<lambda>c. \<not> uriReserved c) (js ''a%26b%20%C3%B3'') \<and>
   requests (snd (fetchAndDisplayCocktailsByCategory notFoundNet (js ''a&b '' @ [0xF3]) page0)) =
     [filterUrl (js ''a%26b%20%C3%B3'')] \<and>
   requests (snd (fetchAndDisplayCocktailDetails notFoundNet (js ''a&b '' @ [0xF3]) page0)) =
     [lookupUrl (js ''a%26b%20%C3%B3'')] \<and>
   requests (snd (searchAndDisplayCocktail notFoundNet
      (page0\<lparr>searchInput := Some (js '' a&b '' @ [0xF3, 0x20])\<rparr>))) =
     [searchUrl (js ''a%26b%20%C3%B3'')]"
proof -
  have enc: "encodeURIComponent (js ''a&b '' @ [0xF3]) = Inr (js ''a%26b%20%C3%B3'')"
    by (simp add: js_def uriUnescaped_def isLeadSurrogate_def isTrailSurrogate_def
        percentEncode_def percentOctet_def utf8_def hexDigit_def bindE_def)
  have u: "utf8String (js ''a&b '' @ [0xF3]) = Some [0x61, 0x26, 0x62, 0x20, 0xC3, 0xB3]"
    by (simp add: js_def utf8String_def isLeadSurrogate_def isTrailSurrogate_def utf8_def)
  have tr: "trim (js '' a&b '' @ [0xF3, 0x20]) = js ''a&b '' @ [0xF3]"
    by (simp add: trim_def js_def isWhiteSpace_def)
  have ne: "js ''a&b '' @ [0xF3] \<noteq> []"
    by (simp add: js_def)
  note t = query_value_encoded_once [OF enc, of page0 notFoundNet]
  from t u have 1: "percentDecode (js ''a%26b%20%C3%B3'') = Some [0x61, 0x26, 0x62, 0x20, 0xC3, 0xB3]"
    by auto
  from t have 2: "requests (snd (fetchAndDisplayCocktailsByCategory notFoundNet
      (js ''a&b '' @ [0xF3]) page0)) = [filterUrl (js ''a%26b%20%C3%B3'')]"
    and 3: "requests (snd (fetchAndDisplayCocktailDetails notFoundNet
      (js ''a&b '' @ [0xF3]) page0)) = [lookupUrl (js ''a%26b%20%C3%B3'')]"
    by (simp_all add: page0_def)
  from t have 4: "list_all (\<lambda>c. \<not> uriReserved c) (js ''a%26b%20%C3%B3'')"
    by (simp add: list_all_iff)
  from query_value_encoded_once [OF enc,
      of "page0\<lparr>searchInput := Some (js '' a&b '' @ [0xF3, 0x20])\<rparr>" notFoundNet] tr ne
  have 5: "requests (snd (searchAndDisplayCocktail notFoundNet
      (page0\<lparr>searchInput := Some (js '' a&b '' @ [0xF3, 0x20])\<rparr>))) =
     [searchUrl (js ''a%26b%20%C3%B3'')]"
    by (simp add: page0_def)
  from enc 1 2 3 4 5 show ?thesis by simp
qed

end
